theory Spec2Isabelle
  imports Complex_Main
begin

section \<open>Floating-point values\<close>

text \<open>
  The program computes with numpy \<open>float64\<close> values.  A value is a finite number, one of
  the two infinities, or NaN.  A finite value is identified with the real number it
  denotes, so the two zeros are one value.

  The results of the \<open>float64\<close> operations are rounded, may overflow or underflow, and
  the rounding of the library functions is not specified.  No rounding is fixed here:
  every arithmetic operation of the program is a parameter of the model, collected in the
  records \<open>angle_ops\<close> and \<open>float_ops\<close> below, and the theorems hold for every choice of
  these operations.  Comparisons, negation and the conversion of small integers are exact
  in IEEE 754 arithmetic and are modelled exactly; the remainder \<open>%\<close> is modelled by
  the exact remainder, and the tolerance test of \<open>np.allclose\<close> on the exact values.
\<close>

datatype npfloat = Fin real | PInf | NInf | NaN

text \<open>A function of finite arguments, applied to values that may be NaN.\<close>

fun lift1 :: "(real \<Rightarrow> real) \<Rightarrow> npfloat \<Rightarrow> npfloat" where
  "lift1 f (Fin x) = Fin (f x)"
| "lift1 f _ = NaN"

fun lift2 :: "(real \<Rightarrow> real \<Rightarrow> real) \<Rightarrow> npfloat \<Rightarrow> npfloat \<Rightarrow> npfloat" where
  "lift2 f (Fin x) (Fin y) = Fin (f x y)"
| "lift2 f _ _ = NaN"

text \<open>\<open>a < b\<close>: false as soon as one side is NaN.\<close>

fun fless :: "npfloat \<Rightarrow> npfloat \<Rightarrow> bool" where
  "fless NaN _ = False"
| "fless _ NaN = False"
| "fless (Fin x) (Fin y) = (x < y)"
| "fless (Fin x) PInf = True"
| "fless NInf (Fin y) = True"
| "fless NInf PInf = True"
| "fless _ _ = False"

fun fneg :: "npfloat \<Rightarrow> npfloat" where
  "fneg (Fin x) = Fin (- x)"
| "fneg PInf = NInf"
| "fneg NInf = PInf"
| "fneg NaN = NaN"

text \<open>
  \<open>x % m\<close> on floats for a positive modulus: the result has the sign of \<open>m\<close>; the
  remainder of an infinity or of NaN is NaN.
\<close>

definition py_mod :: "real \<Rightarrow> real \<Rightarrow> real" where
  "py_mod x m = x - m * of_int \<lfloor>x / m\<rfloor>"

definition fmod :: "npfloat \<Rightarrow> real \<Rightarrow> npfloat" where
  "fmod x m = lift1 (\<lambda>v. py_mod v m) x"

section \<open>Conformation classifier\<close>

text \<open>
  The four \<open>float64\<close> operations of the classifier: \<open>np.deg2rad\<close>, \<open>np.degrees\<close>,
  subtraction, and \<open>np.linalg.norm\<close> of a two-component difference.  After the two
  remainders every operand lies between \<open>-360\<close> and \<open>360\<close>, so each operation maps
  finite arguments to a finite result; a NaN argument gives NaN.
\<close>

record angle_ops =
  a_deg2rad :: "real \<Rightarrow> real"
  a_degrees :: "real \<Rightarrow> real"
  a_sub :: "real \<Rightarrow> real \<Rightarrow> real"
  a_norm :: "real \<Rightarrow> real \<Rightarrow> real"

text \<open>The five keys of the \<open>conformations\<close> dictionary, in insertion order.\<close>

datatype conformation = Chair | Boat | Twist_Boat | Half_Chair | Half_Boat

text \<open>
  Each dictionary value is itself a dictionary with an optional \<open>'theta'\<close> and an
  optional \<open>'phi'\<close> list (reference angles in degrees).
\<close>

type_synonym angles = "real list option \<times> real list option"

definition conformations :: "(conformation \<times> angles) list" where
  "conformations =
    [(Chair, (Some [0, 180], None)),
     (Boat, (Some [90], Some [0, 60, 120, 180, 240, 300])),
     (Twist_Boat, (Some [90], Some [30, 90, 150, 210, 270, 330])),
     (Half_Chair, (Some [30, 150], None)),
     (Half_Boat, (Some [60, 120], None))]"

text \<open>\<open>angles.get(key, [default])\<close>\<close>

definition get_refs :: "real list option \<Rightarrow> npfloat \<Rightarrow> npfloat list" where
  "get_refs entry dflt = (case entry of Some l \<Rightarrow> map Fin l | None \<Rightarrow> [dflt])"

text \<open>\<open>min_distance\<close> and \<open>assigned_conformation\<close>.\<close>

type_synonym scan_state = "npfloat \<times> conformation option"

text \<open>The body of the innermost loop.\<close>

definition visit ::
  "angle_ops \<Rightarrow> npfloat \<Rightarrow> npfloat \<Rightarrow> conformation \<Rightarrow> npfloat \<Rightarrow> npfloat
    \<Rightarrow> scan_state \<Rightarrow> scan_state" where
  "visit ops lat1 lon1 c theta_ref phi_ref s =
    (let lat2 = lift1 (a_deg2rad ops)
                  (lift2 (a_sub ops) (Fin 90) (lift1 (a_degrees ops) theta_ref));
         lon2 = lift1 (a_deg2rad ops) (lift1 (a_degrees ops) phi_ref);
         distance = lift2 (a_norm ops) (lift2 (a_sub ops) lat1 lat2)
                      (lift2 (a_sub ops) lon1 lon2)
     in if fless distance (fst s) then (distance, Some c) else s)"

definition conformation_haversine ::
  "angle_ops \<Rightarrow> npfloat list \<Rightarrow> npfloat \<Rightarrow> npfloat \<Rightarrow> conformation option" where
  "conformation_haversine ops amplitude theta_deg0 phi_deg0 =
    (let theta_deg = fmod theta_deg0 180;
         phi_deg = fmod phi_deg0 360;
         lat1 = lift1 (a_deg2rad ops) (lift2 (a_sub ops) (Fin 90) theta_deg);
         lon1 = lift1 (a_deg2rad ops) phi_deg
     in snd (fold (\<lambda>(c, a) s.
               let theta_refs = map (lift1 (a_deg2rad ops)) (get_refs (fst a) theta_deg);
                   phi_refs = map (lift1 (a_deg2rad ops)) (get_refs (snd a) phi_deg)
               in fold (\<lambda>theta_ref. fold (visit ops lat1 lon1 c theta_ref) phi_refs)
                    theta_refs s)
             conformations (PInf, None)))"

subsection \<open>The classifier as the specification words it\<close>






text \<open>
  The four operations without rounding, for evaluating examples:
  \<open>deg2rad x = x \<cdot> \<pi> / 180\<close>, \<open>degrees x = x \<cdot> 180 / \<pi>\<close>, the difference, and the Euclidean norm.
\<close>

definition exact_angle_ops :: angle_ops where
  "exact_angle_ops =
    \<lparr>a_deg2rad = (\<lambda>x. x * (pi / 180)), a_degrees = (\<lambda>x. x * (180 / pi)),
     a_sub = (\<lambda>x y. x - y), a_norm = (\<lambda>x y. sqrt (x\<^sup>2 + y\<^sup>2))\<rparr>"

section \<open>Pucker engine\<close>

text \<open>
  The Python exceptions the modelled functions can end in, followed by the three error
  names of the specification's taxonomy that the claims mention.  No class of the latter
  three names exists in the source.
\<close>

datatype error =
    UnboundLocalError | IndexError | ValueError
  | InvalidRingSizeError | DegenerateRingError | UnsupportedRingSizeError

text \<open>
  The \<open>float64\<close> operations of the engine: the constant \<open>np.pi\<close>, the four arithmetic
  operations, \<open>np.sqrt\<close>, \<open>**2\<close> and \<open>np.square\<close>, \<open>np.sin\<close>, \<open>np.cos\<close>,
  \<open>np.arctan2\<close>, \<open>np.degrees\<close>, \<open>np.dot\<close> of two vectors, \<open>np.linalg.norm\<close> of a
  vector, and the \<open>sum\<close> method.
\<close>

record float_ops =
  f_pi :: npfloat
  f_add :: "npfloat \<Rightarrow> npfloat \<Rightarrow> npfloat"
  f_sub :: "npfloat \<Rightarrow> npfloat \<Rightarrow> npfloat"
  f_mul :: "npfloat \<Rightarrow> npfloat \<Rightarrow> npfloat"
  f_div :: "npfloat \<Rightarrow> npfloat \<Rightarrow> npfloat"
  f_sqrt :: "npfloat \<Rightarrow> npfloat"
  f_square :: "npfloat \<Rightarrow> npfloat"
  f_sin :: "npfloat \<Rightarrow> npfloat"
  f_cos :: "npfloat \<Rightarrow> npfloat"
  f_atan2 :: "npfloat \<Rightarrow> npfloat \<Rightarrow> npfloat"
  f_degrees :: "npfloat \<Rightarrow> npfloat"
  f_dot :: "npfloat list \<Rightarrow> npfloat list \<Rightarrow> npfloat"
  f_norm :: "npfloat list \<Rightarrow> npfloat"
  f_sum :: "npfloat list \<Rightarrow> npfloat"

text \<open>A row of an \<open>N \<times> 3\<close> coordinate array of finite numbers.\<close>

type_synonym vec3 = "real \<times> real \<times> real"

type_synonym fvec3 = "npfloat \<times> npfloat \<times> npfloat"

text \<open>The three columns of a coordinate array.\<close>

definition column_x :: "vec3 list \<Rightarrow> npfloat list" where
  "column_x coordinates = map (\<lambda>p. Fin (fst p)) coordinates"

definition column_y :: "vec3 list \<Rightarrow> npfloat list" where
  "column_y coordinates = map (\<lambda>p. Fin (fst (snd p))) coordinates"

definition column_z :: "vec3 list \<Rightarrow> npfloat list" where
  "column_z coordinates = map (\<lambda>p. Fin (snd (snd p))) coordinates"

text \<open>\<open>np.dot(w, coordinates)\<close> for a weight vector \<open>w\<close> of length \<open>N\<close>: one dot product
  for each column.\<close>

definition weighted_sum :: "float_ops \<Rightarrow> npfloat list \<Rightarrow> vec3 list \<Rightarrow> fvec3" where
  "weighted_sum ops ws coordinates =
    (f_dot ops ws (column_x coordinates),
     f_dot ops ws (column_y coordinates),
     f_dot ops ws (column_z coordinates))"

text \<open>\<open>2 * np.pi * np.arange(0, N) / N\<close> at index \<open>j\<close>.\<close>

definition ring_angle :: "float_ops \<Rightarrow> nat \<Rightarrow> nat \<Rightarrow> npfloat" where
  "ring_angle ops j N =
    f_div ops (f_mul ops (f_mul ops (Fin 2) (f_pi ops)) (Fin (real j))) (Fin (real N))"

definition get_mean_plane :: "float_ops \<Rightarrow> vec3 list \<Rightarrow> fvec3 \<times> fvec3" where
  "get_mean_plane ops coordinates =
    (let N = length coordinates;
         R1 = weighted_sum ops (map (\<lambda>j. f_sin ops (ring_angle ops j N)) [0..<N]) coordinates;
         R2 = weighted_sum ops (map (\<lambda>j. f_cos ops (ring_angle ops j N)) [0..<N]) coordinates
     in (R1, R2))"

text \<open>\<open>np.cross\<close> of two vectors of three components.\<close>

definition cross :: "float_ops \<Rightarrow> fvec3 \<Rightarrow> fvec3 \<Rightarrow> fvec3" where
  "cross ops a b =
    (f_sub ops (f_mul ops (fst (snd a)) (snd (snd b))) (f_mul ops (snd (snd a)) (fst (snd b))),
     f_sub ops (f_mul ops (snd (snd a)) (fst b)) (f_mul ops (fst a) (snd (snd b))),
     f_sub ops (f_mul ops (fst a) (fst (snd b))) (f_mul ops (fst (snd a)) (fst b)))"

text \<open>
  \<open>cross_product / np.linalg.norm(cross_product)\<close>.  There is no check of the norm, and
  numpy's division never raises.
\<close>

definition get_normal :: "float_ops \<Rightarrow> vec3 list \<Rightarrow> error + fvec3" where
  "get_normal ops coordinates =
    (let (R1, R2) = get_mean_plane ops coordinates;
         cross_product = cross ops R1 R2;
         n = f_norm ops [fst cross_product, fst (snd cross_product), snd (snd cross_product)]
     in Inr (f_div ops (fst cross_product) n,
             f_div ops (fst (snd cross_product)) n,
             f_div ops (snd (snd cross_product)) n))"

text \<open>
  \<open>np.allclose(0, x, rtol=1e-06, atol=1e-08)\<close>; an infinity or NaN is close to nothing.
\<close>

definition allclose_zero :: "npfloat list \<Rightarrow> bool" where
  "allclose_zero x =
    list_all (\<lambda>v. case v of Fin b \<Rightarrow> \<bar>0 - b\<bar> \<le> 1 / 10 ^ 8 + 1 / 10 ^ 6 * \<bar>b\<bar> | _ \<Rightarrow> False) x"

definition fix_zero :: "npfloat list \<Rightarrow> npfloat list" where
  "fix_zero x = (if allclose_zero x then [Fin 0] else x)"

text \<open>One entry of \<open>np.dot(coordinates, n)\<close>.\<close>

definition row_dot :: "float_ops \<Rightarrow> fvec3 \<Rightarrow> vec3 \<Rightarrow> npfloat" where
  "row_dot ops n p =
    f_dot ops [Fin (fst p), Fin (fst (snd p)), Fin (snd (snd p))]
      [fst n, fst (snd n), snd (snd n)]"

definition displacement :: "float_ops \<Rightarrow> vec3 list \<Rightarrow> error + npfloat list" where
  "displacement ops coordinates =
    (case get_normal ops coordinates of
       Inl e \<Rightarrow> Inl e
     | Inr n \<Rightarrow> Inr (map (row_dot ops n) coordinates))"

text \<open>\<open>f(2 * np.pi * k * np.arange(0, N) / N)\<close> for \<open>f\<close> the cosine or the sine.\<close>

definition harmonic :: "float_ops \<Rightarrow> (npfloat \<Rightarrow> npfloat) \<Rightarrow> nat \<Rightarrow> nat \<Rightarrow> npfloat list" where
  "harmonic ops f k N =
    map (\<lambda>j. f (f_div ops
                 (f_mul ops (f_mul ops (f_mul ops (Fin 2) (f_pi ops)) (Fin (real k)))
                    (Fin (real j)))
                 (Fin (real N)))) [0..<N]"

text \<open>\<open>np.where(angle_rad < 0, angle_rad + 2 * np.pi, angle_rad)\<close> on one entry.\<close>

definition wrap_angle :: "float_ops \<Rightarrow> npfloat \<Rightarrow> npfloat" where
  "wrap_angle ops a =
    (if fless a (Fin 0) then f_add ops a (f_mul ops (Fin 2) (f_pi ops)) else a)"

text \<open>
  An elementwise binary operation on two one-dimensional arrays under numpy's
  broadcasting: equal lengths pair up, a length-one array is stretched, anything else is
  a \<open>ValueError\<close>.
\<close>

definition broadcast2 ::
  "(npfloat \<Rightarrow> npfloat \<Rightarrow> npfloat) \<Rightarrow> npfloat list \<Rightarrow> npfloat list \<Rightarrow> error + npfloat list" where
  "broadcast2 f xs ys =
    (if length xs = length ys then Inr (map2 f xs ys)
     else if length xs = 1 then Inr (map (f (hd xs)) ys)
     else if length ys = 1 then Inr (map (\<lambda>x. f x (hd ys)) xs)
     else Inl ValueError)"

text \<open>
  The scaled Fourier components of the displacements, before \<open>fix_zero\<close>:
  \<open>np.sqrt(2 / N) * np.array(cos_component)\<close> and
  \<open>-np.sqrt(2 / N) * np.array(sin_component)\<close> for \<open>k\<close> in \<open>m\<close>.
\<close>

definition qcos_of :: "float_ops \<Rightarrow> npfloat list \<Rightarrow> nat \<Rightarrow> nat list \<Rightarrow> npfloat list" where
  "qcos_of ops z N m =
    (let cos_component = map (\<lambda>k. f_dot ops z (harmonic ops (f_cos ops) k N)) m
     in map (f_mul ops (f_sqrt ops (f_div ops (Fin 2) (Fin (real N))))) cos_component)"

definition qsin_of :: "float_ops \<Rightarrow> npfloat list \<Rightarrow> nat \<Rightarrow> nat list \<Rightarrow> npfloat list" where
  "qsin_of ops z N m =
    (let sin_component = map (\<lambda>k. f_dot ops z (harmonic ops (f_sin ops) k N)) m
     in map (f_mul ops (fneg (f_sqrt ops (f_div ops (Fin 2) (Fin (real N)))))) sin_component)"

text \<open>
  Outside \<open>4 < N \<le> 20\<close> no branch assigns the three results, and the final
  \<open>return amplitude, angle_deg, angle_rad\<close> raises \<open>UnboundLocalError\<close>.  The text
  the function writes to the standard output in that case is not modelled.
\<close>

definition get_ring_pucker_coords ::
  "float_ops \<Rightarrow> vec3 list \<Rightarrow> error + (npfloat list \<times> npfloat list \<times> npfloat list)" where
  "get_ring_pucker_coords ops coordinates =
    (let N = length coordinates
     in case displacement ops coordinates of
          Inl e \<Rightarrow> Inl e
        | Inr z \<Rightarrow>
            if 4 < N \<and> N \<le> 20 then
              if N mod 2 = 0 then
                (let m = [2..<N div 2];
                     qcos = qcos_of ops z N m;
                     qsin = qsin_of ops z N m
                 in case broadcast2 (f_add ops) (map (f_square ops) qsin)
                           (map (f_square ops) qcos) of
                      Inl e \<Rightarrow> Inl e
                    | Inr s \<Rightarrow>
                        (let q = map (f_sqrt ops) s;
                             amplitude = q @
                               [f_mul ops (f_div ops (Fin 1) (f_sqrt ops (Fin (real N))))
                                  (f_dot ops z
                                     (map (\<lambda>j. f_cos ops (f_mul ops (Fin (real j)) (f_pi ops)))
                                        [0..<N]))]
                         in case broadcast2 (f_atan2 ops) qsin qcos of
                              Inl e \<Rightarrow> Inl e
                            | Inr a \<Rightarrow>
                                (let angle_rad = map (wrap_angle ops) a;
                                     angle_deg = map (f_degrees ops) angle_rad
                                 in Inr (amplitude, angle_deg, angle_rad))))
              else
                (let m = [2..<(N - 1) div 2 + 1];
                     qcos = fix_zero (qcos_of ops z N m);
                     qsin = fix_zero (qsin_of ops z N m)
                 in case broadcast2 (f_add ops) (map (f_square ops) qsin)
                           (map (f_square ops) qcos) of
                      Inl e \<Rightarrow> Inl e
                    | Inr s \<Rightarrow>
                        (let amplitude = map (f_sqrt ops) s
                         in case broadcast2 (f_atan2 ops) qsin qcos of
                              Inl e \<Rightarrow> Inl e
                            | Inr a \<Rightarrow>
                                (let angle_rad = map (wrap_angle ops) a;
                                     angle_deg = map (f_degrees ops) angle_rad
                                 in Inr (amplitude, angle_deg, angle_rad))))
            else Inl UnboundLocalError)"

definition get_total_puckering_amplitude :: "float_ops \<Rightarrow> npfloat list \<Rightarrow> npfloat" where
  "get_total_puckering_amplitude ops amplitude =
    f_sqrt ops (f_sum ops (map (f_square ops) amplitude))"

text \<open>\<open>xs[i]\<close> for a non-negative literal index.\<close>

definition getitem :: "'a list \<Rightarrow> nat \<Rightarrow> error + 'a" where
  "getitem xs i = (if i < length xs then Inr (xs ! i) else Inl IndexError)"

definition get_spherical_polar_set_n6 ::
  "float_ops \<Rightarrow> npfloat list \<Rightarrow> npfloat list \<Rightarrow> error + (npfloat \<times> npfloat \<times> npfloat)" where
  "get_spherical_polar_set_n6 ops amplitude angle_deg =
    (let Q = f_sqrt ops (f_sum ops (map (f_square ops) amplitude))
     in case getitem amplitude 0 of
          Inl e \<Rightarrow> Inl e
        | Inr q2 \<Rightarrow>
            (case getitem amplitude 1 of
               Inl e \<Rightarrow> Inl e
             | Inr q3 \<Rightarrow>
                 (let theta_deg = f_degrees ops (f_atan2 ops q2 q3)
                  in case getitem angle_deg 0 of
                       Inl e \<Rightarrow> Inl e
                     | Inr phi_deg \<Rightarrow> Inr (Q, theta_deg, phi_deg))))"

section \<open>Facts of IEEE 754 arithmetic about zero and NaN\<close>

definition zero_or_nan :: "npfloat \<Rightarrow> bool" where
  "zero_or_nan x = (x = Fin 0 \<or> x = NaN)"

text \<open>
  What the operations do on zeros and on NaN, whatever their rounding:
  a dot product or a norm of zeros and NaNs is zero or NaN; a product with a zero or a NaN
  factor is zero or NaN; so is a difference of zeros and NaNs; a quotient of zeros and
  NaNs is NaN; and a NaN operand gives a NaN result.
\<close>

definition ieee_special_values :: "float_ops \<Rightarrow> bool" where
  "ieee_special_values ops =
    ((\<forall>ws zs. list_all zero_or_nan zs \<longrightarrow> zero_or_nan (f_dot ops ws zs))
     \<and> (\<forall>x y. zero_or_nan x \<longrightarrow> zero_or_nan (f_mul ops x y) \<and> zero_or_nan (f_mul ops y x))
     \<and> (\<forall>x y. zero_or_nan x \<longrightarrow> zero_or_nan y \<longrightarrow> zero_or_nan (f_sub ops x y))
     \<and> (\<forall>xs. list_all zero_or_nan xs \<longrightarrow> zero_or_nan (f_norm ops xs))
     \<and> (\<forall>x y. zero_or_nan x \<longrightarrow> zero_or_nan y \<longrightarrow> f_div ops x y = NaN)
     \<and> (\<forall>xs ys. length xs = length ys \<longrightarrow> NaN \<in> set xs \<union> set ys \<longrightarrow> f_dot ops xs ys = NaN)
     \<and> (\<forall>x. f_mul ops x NaN = NaN)
     \<and> f_add ops NaN NaN = NaN
     \<and> f_square ops NaN = NaN
     \<and> f_sqrt ops NaN = NaN
     \<and> (\<forall>xs. NaN \<in> set xs \<longrightarrow> f_sum ops xs = NaN)
     \<and> f_atan2 ops NaN NaN = NaN
     \<and> f_degrees ops NaN = NaN)"

section \<open>The operations without rounding\<close>

text \<open>
  The operations on exact real numbers, with the results IEEE 754 prescribes when an
  operand is an infinity or NaN or a divisor is zero.  They serve to evaluate examples.
\<close>

fun fadd :: "npfloat \<Rightarrow> npfloat \<Rightarrow> npfloat" where
  "fadd (Fin x) (Fin y) = Fin (x + y)"
| "fadd NaN _ = NaN"
| "fadd _ NaN = NaN"
| "fadd PInf NInf = NaN"
| "fadd NInf PInf = NaN"
| "fadd PInf _ = PInf"
| "fadd _ PInf = PInf"
| "fadd NInf _ = NInf"
| "fadd _ NInf = NInf"

definition fsub :: "npfloat \<Rightarrow> npfloat \<Rightarrow> npfloat" where
  "fsub a b = fadd a (fneg b)"

text \<open>An infinity with the sign of a finite number's product or quotient.\<close>

definition signed_inf :: "bool \<Rightarrow> npfloat" where
  "signed_inf positive = (if positive then PInf else NInf)"

fun fmul :: "npfloat \<Rightarrow> npfloat \<Rightarrow> npfloat" where
  "fmul (Fin x) (Fin y) = Fin (x * y)"
| "fmul NaN _ = NaN"
| "fmul _ NaN = NaN"
| "fmul (Fin x) PInf = (if x = 0 then NaN else signed_inf (0 < x))"
| "fmul (Fin x) NInf = (if x = 0 then NaN else signed_inf (x < 0))"
| "fmul PInf (Fin y) = (if y = 0 then NaN else signed_inf (0 < y))"
| "fmul NInf (Fin y) = (if y = 0 then NaN else signed_inf (y < 0))"
| "fmul PInf PInf = PInf"
| "fmul NInf NInf = PInf"
| "fmul PInf NInf = NInf"
| "fmul NInf PInf = NInf"

fun fdiv :: "npfloat \<Rightarrow> npfloat \<Rightarrow> npfloat" where
  "fdiv (Fin x) (Fin y) =
     (if y = 0 then (if x = 0 then NaN else signed_inf (0 < x)) else Fin (x / y))"
| "fdiv NaN _ = NaN"
| "fdiv _ NaN = NaN"
| "fdiv (Fin x) _ = Fin 0"
| "fdiv PInf (Fin y) = signed_inf (0 \<le> y)"
| "fdiv NInf (Fin y) = signed_inf (y < 0)"
| "fdiv _ _ = NaN"

fun fsqrt :: "npfloat \<Rightarrow> npfloat" where
  "fsqrt (Fin x) = (if x < 0 then NaN else Fin (sqrt x))"
| "fsqrt PInf = PInf"
| "fsqrt _ = NaN"

definition fsquare :: "npfloat \<Rightarrow> npfloat" where
  "fsquare x = fmul x x"

text \<open>The two-argument arctangent of finite numbers, with \<open>atan2 0 0 = 0\<close>.\<close>

definition atan2 :: "real \<Rightarrow> real \<Rightarrow> real" where
  "atan2 y x =
    (if 0 < x then arctan (y / x)
     else if x < 0 then (if 0 \<le> y then arctan (y / x) + pi else arctan (y / x) - pi)
     else if 0 < y then pi / 2
     else if y < 0 then - (pi / 2)
     else 0)"

fun fatan2 :: "npfloat \<Rightarrow> npfloat \<Rightarrow> npfloat" where
  "fatan2 (Fin y) (Fin x) = Fin (atan2 y x)"
| "fatan2 NaN _ = NaN"
| "fatan2 _ NaN = NaN"
| "fatan2 (Fin y) PInf = Fin 0"
| "fatan2 (Fin y) NInf = (if 0 \<le> y then Fin pi else Fin (- pi))"
| "fatan2 PInf (Fin x) = Fin (pi / 2)"
| "fatan2 NInf (Fin x) = Fin (- (pi / 2))"
| "fatan2 PInf PInf = Fin (pi / 4)"
| "fatan2 PInf NInf = Fin (3 * pi / 4)"
| "fatan2 NInf PInf = Fin (- (pi / 4))"
| "fatan2 NInf NInf = Fin (- (3 * pi / 4))"

fun fdegrees :: "npfloat \<Rightarrow> npfloat" where
  "fdegrees (Fin x) = Fin (x * (180 / pi))"
| "fdegrees y = y"

definition fsum :: "npfloat list \<Rightarrow> npfloat" where
  "fsum xs = foldr fadd xs (Fin 0)"

definition fdot :: "npfloat list \<Rightarrow> npfloat list \<Rightarrow> npfloat" where
  "fdot xs ys = fsum (map2 fmul xs ys)"

definition fnorm :: "npfloat list \<Rightarrow> npfloat" where
  "fnorm xs = fsqrt (fsum (map fsquare xs))"

definition exact_float_ops :: float_ops where
  "exact_float_ops =
    \<lparr>f_pi = Fin pi, f_add = fadd, f_sub = fsub, f_mul = fmul, f_div = fdiv,
     f_sqrt = fsqrt, f_square = fsquare, f_sin = lift1 sin, f_cos = lift1 cos,
     f_atan2 = fatan2, f_degrees = fdegrees, f_dot = fdot, f_norm = fnorm, f_sum = fsum\<rparr>"

section \<open>Example rings\<close>

text \<open>Six atoms on the \<open>x\<close> axis: the two mean-plane axes are parallel.\<close>

definition line_ring :: "vec3 list" where
  "line_ring = [(0, 0, 0), (1, 0, 0), (2, 0, 0), (3, 0, 0), (4, 0, 0), (5, 0, 0)]"

text \<open>Six atoms that do not lie in one plane.\<close>

definition bent_ring :: "vec3 list" where
  "bent_ring = [(1, 0, 0), (0, 1, 0), (0, 0, 0), (0, 0, 1), (0, 0, 0), (0, 0, 0)]"

text \<open>Seven atoms in the plane \<open>z = 0\<close>, not on one line.\<close>

definition flat_ring7 :: "vec3 list" where
  "flat_ring7 =
    [(1, 0, 0), (0, 1, 0), (0, 0, 0), (0, 0, 0), (0, 0, 0), (0, 0, 0), (0, 0, 0)]"

section \<open>Properties of the classifier\<close>

subsection \<open>Normalisation\<close>

lemma py_mod_shift: "m \<noteq> 0 \<Longrightarrow> py_mod (x + m * of_int k) m = py_mod x m"
  by (simp add: py_mod_def add_divide_distrib algebra_simps)

lemma fmod_shift: "m \<noteq> 0 \<Longrightarrow> fmod (fadd x (Fin (m * of_int k))) m = fmod x m"
  by (cases x) (simp_all add: fmod_def py_mod_shift)

subsection \<open>The scan keeps the first minimum\<close>








text \<open>A NaN angle makes every distance NaN, so no family is ever assigned.\<close>

lemma visit_NaN_lat: "visit ops NaN lon1 c theta_ref phi_ref s = s"
  by (simp add: visit_def Let_def)

lemma lift2_NaN_right [simp]: "lift2 f x NaN = NaN"
  by (cases x) simp_all

lemma visit_NaN_lon: "visit ops lat1 NaN c theta_ref phi_ref s = s"
  by (simp add: visit_def Let_def)

lemma fmod_not_Fin: "(\<forall>r. x \<noteq> Fin r) \<Longrightarrow> fmod x m = NaN"
  by (cases x) (simp_all add: fmod_def)

lemma conformation_haversine_not_finite:
  "(\<forall>r. theta_deg \<noteq> Fin r) \<or> (\<forall>r. phi_deg \<noteq> Fin r)
    \<Longrightarrow> conformation_haversine ops amp theta_deg phi_deg = None"
  by (auto simp: conformation_haversine_def conformations_def fmod_not_Fin
      visit_NaN_lat visit_NaN_lon Let_def get_refs_def)



subsection \<open>Claims about the classifier\<close>



text \<open>
  C7.  Adding \<open>180 \<cdot> k1\<close> to \<open>theta_deg\<close> and \<open>360 \<cdot> k2\<close> to \<open>phi_deg\<close>, for integers
  \<open>k1\<close> and \<open>k2\<close>, does not change the label: both angles are reduced modulo \<open>180\<close>
  and \<open>360\<close> before anything else is computed.
\<close>

theorem conformation_haversine_periodic:
  "conformation_haversine ops amplitude
       (fadd theta_deg (Fin (180 * of_int k1))) (fadd phi_deg (Fin (360 * of_int k2)))
     = conformation_haversine ops amplitude theta_deg phi_deg"
proof -
  have t: "fmod (fadd theta_deg (Fin (180 * of_int k1))) 180 = fmod theta_deg 180"
    by (rule fmod_shift) simp
  have p: "fmod (fadd phi_deg (Fin (360 * of_int k2))) 360 = fmod phi_deg 360"
    by (rule fmod_shift) simp
  show ?thesis
    unfolding conformation_haversine_def t p ..
qed

theorem conformation_haversine_periodic_witness:
  "conformation_haversine exact_angle_ops [] (Fin (15 + 180 * 2)) (Fin (0 + 360 * (-3)))
     = conformation_haversine exact_angle_ops [] (Fin 15) (Fin 0)"
  using conformation_haversine_periodic [of exact_angle_ops "[]" "Fin 15" 2 "Fin 0" "-3"]
  by simp

text \<open>
  C10.  The label does not depend on the amplitude argument, which the function never
  reads.
\<close>

theorem conformation_haversine_ignores_amplitude:
  "conformation_haversine ops a1 theta_deg phi_deg
     = conformation_haversine ops a2 theta_deg phi_deg"
  by (simp add: conformation_haversine_def)

section \<open>Properties of the pucker engine\<close>

subsection \<open>Shapes of the results\<close>

lemma get_normal_returns: "\<exists>n. get_normal ops cs = Inr n"
  by (simp add: get_normal_def Let_def split: prod.splits)

lemma displacement_returns:
  "\<exists>z. displacement ops cs = Inr z \<and> length z = length cs"
  using get_normal_returns [of ops cs] by (auto simp: displacement_def)

lemma length_qcos_of [simp]: "length (qcos_of ops z N m) = length m"
  by (simp add: qcos_of_def)

lemma length_qsin_of [simp]: "length (qsin_of ops z N m) = length m"
  by (simp add: qsin_of_def)

lemma broadcast2_same:
  "length xs = length ys \<Longrightarrow> broadcast2 f xs ys = Inr (map2 f xs ys)"
  by (simp add: broadcast2_def)

lemma length_fix_zero: "length (fix_zero x) = (if allclose_zero x then 1 else length x)"
  by (simp add: fix_zero_def)

lemma broadcast2_length:
  "broadcast2 f xs ys = Inr r \<Longrightarrow>
     length r = (if length xs = 1 then length ys else length xs)"
  by (auto simp: broadcast2_def split: if_splits)

lemma broadcast2_ok:
  "length xs = n \<or> length xs = 1 \<Longrightarrow> length ys = n \<or> length ys = 1
    \<Longrightarrow> \<exists>r. broadcast2 f xs ys = Inr r"
  by (auto simp: broadcast2_def)

lemma pucker_out_of_range:
  "\<not> (4 < length cs \<and> length cs \<le> 20)
    \<Longrightarrow> get_ring_pucker_coords ops cs = Inl UnboundLocalError"
  using displacement_returns [of ops cs] by (auto simp: get_ring_pucker_coords_def Let_def)

lemma pucker_even:
  assumes "4 < length cs" "length cs \<le> 20" "even (length cs)"
  shows "\<exists>amp deg rad. get_ring_pucker_coords ops cs = Inr (amp, deg, rad)
     \<and> length amp = length cs div 2 - 1 \<and> length deg = length cs div 2 - 2
     \<and> length rad = length cs div 2 - 2"
proof -
  obtain z where z: "displacement ops cs = Inr z" using displacement_returns by blast
  have m: "length cs mod 2 = 0" using assms(3) by presburger
  show ?thesis
    using assms(1,2) m z
    by (simp add: get_ring_pucker_coords_def Let_def broadcast2_same)
qed

lemma pucker_odd:
  assumes rng: "4 < length cs" "length cs \<le> 20" and od: "odd (length cs)"
    and z: "displacement ops cs = Inr z"
  defines "N \<equiv> length cs"
  defines "m \<equiv> [2..<(N - 1) div 2 + 1]"
  shows "\<exists>amp deg rad. get_ring_pucker_coords ops cs = Inr (amp, deg, rad)
     \<and> length amp =
         (if allclose_zero (qsin_of ops z N m) \<and> allclose_zero (qcos_of ops z N m) then 1
          else (N - 3) div 2)
     \<and> length deg = length amp \<and> length rad = length amp"
proof -
  have md: "N mod 2 \<noteq> 0" using od unfolding N_def by presburger
  have lm: "length m = (N - 3) div 2"
    using rng od unfolding m_def N_def by (auto elim!: oddE)
  let ?qc = "fix_zero (qcos_of ops z N m)" and ?qs = "fix_zero (qsin_of ops z N m)"
  have lc: "length ?qc = (if allclose_zero (qcos_of ops z N m) then 1 else (N - 3) div 2)"
    by (simp add: length_fix_zero lm)
  have ls: "length ?qs = (if allclose_zero (qsin_of ops z N m) then 1 else (N - 3) div 2)"
    by (simp add: length_fix_zero lm)
  obtain s where s: "broadcast2 (f_add ops) (map (f_square ops) ?qs) (map (f_square ops) ?qc)
      = Inr s"
    using broadcast2_ok [of "map (f_square ops) ?qs" "(N - 3) div 2"
        "map (f_square ops) ?qc" "f_add ops"] lc ls
    by (auto split: if_splits)
  obtain a where a: "broadcast2 (f_atan2 ops) ?qs ?qc = Inr a"
    using broadcast2_ok [of ?qs "(N - 3) div 2" ?qc "f_atan2 ops"] lc ls
    by (auto split: if_splits)
  have len_s: "length s =
      (if allclose_zero (qsin_of ops z N m) \<and> allclose_zero (qcos_of ops z N m)
       then 1 else (N - 3) div 2)"
    using broadcast2_length [OF s] lc ls by (auto split: if_splits)
  have len_a: "length a = length s"
    using broadcast2_length [OF s] broadcast2_length [OF a] by simp
  have "get_ring_pucker_coords ops cs =
      Inr (map (f_sqrt ops) s, map (f_degrees ops) (map (wrap_angle ops) a),
           map (wrap_angle ops) a)"
    using rng md z s a
    unfolding get_ring_pucker_coords_def Let_def N_def [symmetric] m_def [symmetric]
    by simp
  then show ?thesis using len_s len_a by simp
qed

subsection \<open>Six atoms on the x axis\<close>


lemma line_ring_columns:
  "list_all zero_or_nan (column_y line_ring)" "list_all zero_or_nan (column_z line_ring)"
  by (simp_all add: column_y_def column_z_def line_ring_def zero_or_nan_def)

lemma line_ring_normal:
  assumes "ieee_special_values ops"
  shows "get_normal ops line_ring = Inr (NaN, NaN, NaN)"
proof -
  from assms have
    dot: "\<And>ws zs. list_all zero_or_nan zs \<Longrightarrow> zero_or_nan (f_dot ops ws zs)"
    and mul: "\<And>x y. zero_or_nan x \<Longrightarrow> zero_or_nan (f_mul ops x y) \<and> zero_or_nan (f_mul ops y x)"
    and sub: "\<And>x y. zero_or_nan x \<Longrightarrow> zero_or_nan y \<Longrightarrow> zero_or_nan (f_sub ops x y)"
    and nrm: "\<And>xs. list_all zero_or_nan xs \<Longrightarrow> zero_or_nan (f_norm ops xs)"
    and quo: "\<And>x y. zero_or_nan x \<Longrightarrow> zero_or_nan y \<Longrightarrow> f_div ops x y = NaN"
    unfolding ieee_special_values_def by blast+
  obtain R1 R2 where R: "get_mean_plane ops line_ring = (R1, R2)"
    by (cases "get_mean_plane ops line_ring") auto
  obtain a1 a2 a3 where R1: "R1 = (a1, a2, a3)" by (cases R1) auto
  obtain b1 b2 b3 where R2: "R2 = (b1, b2, b3)" by (cases R2) auto
  have z: "zero_or_nan a2" "zero_or_nan a3" "zero_or_nan b2" "zero_or_nan b3"
    using R R1 R2 dot line_ring_columns
    by (auto simp: get_mean_plane_def weighted_sum_def Let_def)
  obtain c1 c2 c3 where c: "cross ops R1 R2 = (c1, c2, c3)"
    by (cases "cross ops R1 R2") auto
  have c1: "zero_or_nan c1"
    using c z mul sub by (auto simp: cross_def R1 R2)
  have c2: "zero_or_nan c2"
    using c z mul sub by (auto simp: cross_def R1 R2)
  have c3: "zero_or_nan c3"
    using c z mul sub by (auto simp: cross_def R1 R2)
  have n: "zero_or_nan (f_norm ops [c1, c2, c3])"
    using c1 c2 c3 by (intro nrm) simp
  show ?thesis
    using R c c1 c2 c3 n quo by (simp add: get_normal_def Let_def)
qed

lemma line_ring_displacement:
  assumes "ieee_special_values ops"
  shows "displacement ops line_ring = Inr (replicate 6 NaN)"
proof -
  from assms have
    nan: "\<And>xs ys. length xs = length ys \<Longrightarrow> NaN \<in> set xs \<union> set ys \<Longrightarrow> f_dot ops xs ys = NaN"
    unfolding ieee_special_values_def by blast
  have "row_dot ops (NaN, NaN, NaN) p = NaN" for p
    by (simp add: row_dot_def nan)
  then show ?thesis
    using line_ring_normal [OF assms]
    by (simp add: displacement_def line_ring_def numeral_eq_Suc)
qed

lemma line_ring_pucker:
  assumes "ieee_special_values ops"
  shows "get_ring_pucker_coords ops line_ring = Inr ([NaN, NaN], [NaN], [NaN])"
proof -
  from assms have
    nan: "\<And>xs ys. length xs = length ys \<Longrightarrow> NaN \<in> set xs \<union> set ys \<Longrightarrow> f_dot ops xs ys = NaN"
    and mul: "\<And>x. f_mul ops x NaN = NaN"
    and rest: "f_add ops NaN NaN = NaN" "f_square ops NaN = NaN" "f_sqrt ops NaN = NaN"
      "f_atan2 ops NaN NaN = NaN" "f_degrees ops NaN = NaN"
    unfolding ieee_special_values_def by blast+
  have l: "length line_ring = 6" by (simp add: line_ring_def)
  have m: "[2..<3] = [2::nat]" by (simp add: upt_rec)
  have d: "f_dot ops (replicate 6 NaN) (map f [0..<6]) = NaN" for f
    by (rule nan) simp_all
  show ?thesis
    by (simp add: get_ring_pucker_coords_def line_ring_displacement [OF assms] l m Let_def
        qcos_of_def qsin_of_def harmonic_def d mul rest broadcast2_def wrap_angle_def)
qed

lemma nan_polar:
  assumes "ieee_special_values ops"
  shows "get_spherical_polar_set_n6 ops [NaN, NaN] [NaN] = Inr (NaN, NaN, NaN)"
proof -
  from assms have
    sum: "\<And>xs. NaN \<in> set xs \<Longrightarrow> f_sum ops xs = NaN"
    and rest: "f_square ops NaN = NaN" "f_sqrt ops NaN = NaN"
      "f_atan2 ops NaN NaN = NaN" "f_degrees ops NaN = NaN"
    unfolding ieee_special_values_def by blast+
  show ?thesis
    by (simp add: get_spherical_polar_set_n6_def getitem_def Let_def sum rest)
qed

subsection \<open>The operations without rounding\<close>

lemma exact_ops_simps [simp]:
  "f_pi exact_float_ops = Fin pi" "f_add exact_float_ops = fadd"
  "f_sub exact_float_ops = fsub" "f_mul exact_float_ops = fmul"
  "f_div exact_float_ops = fdiv" "f_sqrt exact_float_ops = fsqrt"
  "f_square exact_float_ops = fsquare" "f_sin exact_float_ops = lift1 sin"
  "f_cos exact_float_ops = lift1 cos" "f_atan2 exact_float_ops = fatan2"
  "f_degrees exact_float_ops = fdegrees" "f_dot exact_float_ops = fdot"
  "f_norm exact_float_ops = fnorm" "f_sum exact_float_ops = fsum"
  by (simp_all add: exact_float_ops_def)

lemma fadd_NaN [simp]: "fadd x NaN = NaN"
  by (cases x) simp_all

lemma fmul_NaN [simp]: "fmul x NaN = NaN"
  by (cases x) simp_all

lemma zero_or_nan_fadd: "zero_or_nan x \<Longrightarrow> zero_or_nan y \<Longrightarrow> zero_or_nan (fadd x y)"
  by (auto simp: zero_or_nan_def)

lemma zero_or_nan_fmul: "zero_or_nan x \<Longrightarrow> zero_or_nan (fmul x y) \<and> zero_or_nan (fmul y x)"
  by (cases y) (auto simp: zero_or_nan_def)

lemma zero_or_nan_fsum: "list_all zero_or_nan xs \<Longrightarrow> zero_or_nan (fsum xs)"
proof (induction xs)
  case Nil
  show ?case by (simp add: fsum_def zero_or_nan_def)
next
  case (Cons x xs)
  then have "zero_or_nan x" "zero_or_nan (fsum xs)" by simp_all
  then have "zero_or_nan (fadd x (fsum xs))" by (rule zero_or_nan_fadd)
  then show ?case by (simp add: fsum_def)
qed

lemma zero_or_nan_fdot: "list_all zero_or_nan zs \<Longrightarrow> zero_or_nan (fdot ws zs)"
proof -
  assume z: "list_all zero_or_nan zs"
  have "list_all zero_or_nan (map2 fmul ws zs)"
    using z
  proof (induction zs arbitrary: ws)
    case Nil
    show ?case by simp
  next
    case (Cons a zs)
    show ?case
    proof (cases ws)
      case Nil
      then show ?thesis by simp
    next
      case (Cons w ws')
      then show ?thesis
        using Cons.prems Cons.IH [of ws'] zero_or_nan_fmul [of a w] by simp
    qed
  qed
  then show ?thesis unfolding fdot_def by (rule zero_or_nan_fsum)
qed

lemma fsum_NaN: "NaN \<in> set xs \<Longrightarrow> fsum xs = NaN"
proof (induction xs)
  case Nil
  then show ?case by simp
next
  case (Cons x xs)
  show ?case
  proof (cases "x = NaN")
    case True
    then show ?thesis by (simp add: fsum_def)
  next
    case False
    then have "fsum xs = NaN" using Cons by simp
    then show ?thesis by (simp add: fsum_def)
  qed
qed

lemma fdot_NaN:
  assumes "length xs = length ys" "NaN \<in> set xs \<union> set ys"
  shows "fdot xs ys = NaN"
proof -
  have "NaN \<in> set (map2 fmul xs ys)"
    using assms
  proof (induction xs ys rule: list_induct2)
    case Nil
    then show ?case by simp
  next
    case (Cons x xs y ys)
    show ?case
    proof (cases "x = NaN \<or> y = NaN")
      case True
      then have "fmul x y = NaN" by auto
      then show ?thesis by simp
    next
      case False
      then have "NaN \<in> set xs \<union> set ys" using Cons.prems by auto
      then show ?thesis using Cons.IH by simp
    qed
  qed
  then show ?thesis unfolding fdot_def by (rule fsum_NaN)
qed

lemma zero_or_nan_fnorm: "list_all zero_or_nan xs \<Longrightarrow> zero_or_nan (fnorm xs)"
proof -
  assume "list_all zero_or_nan xs"
  then have "list_all zero_or_nan (map fsquare xs)"
    by (induction xs) (auto simp: fsquare_def zero_or_nan_fmul)
  then have "zero_or_nan (fsum (map fsquare xs))" by (rule zero_or_nan_fsum)
  then show ?thesis by (auto simp: fnorm_def zero_or_nan_def)
qed

lemma exact_special_values: "ieee_special_values exact_float_ops"
  unfolding ieee_special_values_def
proof (intro conjI allI impI)
  fix x y assume "zero_or_nan x" "zero_or_nan y"
  then show "zero_or_nan (f_sub exact_float_ops x y)"
    by (auto simp: zero_or_nan_def fsub_def)
next
  fix x y assume "zero_or_nan x" "zero_or_nan y"
  then show "f_div exact_float_ops x y = NaN"
    by (auto simp: zero_or_nan_def)
qed (simp_all add: zero_or_nan_fdot zero_or_nan_fmul zero_or_nan_fnorm fdot_NaN fsum_NaN
    fsquare_def)

lemma upt7: "[0..<7] = [0, 1, 2, 3, 4, 5, 6]"
  by (simp add: upt_rec)

lemma sin_2pi7: "sin (2 * pi / 7) \<noteq> 0"
proof -
  have "0 < sin (2 * pi / 7)"
    by (rule sin_gt_zero) (use pi_gt_zero in simp_all)
  then show ?thesis by simp
qed


lemma flat_ring7_exact_normal:
  "\<exists>c. get_normal exact_float_ops flat_ring7 = Inr (Fin 0, Fin 0, Fin c)"
proof -
  let ?s = "sin (2 * pi / 7)"
  have c: "cross exact_float_ops (fst (get_mean_plane exact_float_ops flat_ring7))
     (snd (get_mean_plane exact_float_ops flat_ring7)) = (Fin 0, Fin 0, Fin (- ?s))"
    by (simp add: get_mean_plane_def flat_ring7_def weighted_sum_def cross_def upt7 Let_def
        column_x_def column_y_def column_z_def ring_angle_def fdot_def fsum_def fsub_def)
  have n: "fnorm [Fin 0, Fin 0, Fin (- ?s)] = Fin \<bar>?s\<bar>"
    by (simp add: fnorm_def fsum_def fsquare_def)
  have "\<bar>?s\<bar> \<noteq> 0" using sin_2pi7 by simp
  then show ?thesis
    using c n
    by (cases "get_mean_plane exact_float_ops flat_ring7") (simp add: get_normal_def Let_def)
qed

lemma flat_ring7_exact_displacement:
  "displacement exact_float_ops flat_ring7 = Inr (replicate 7 (Fin 0))"
proof -
  obtain c where "get_normal exact_float_ops flat_ring7 = Inr (Fin 0, Fin 0, Fin c)"
    using flat_ring7_exact_normal by blast
  then show ?thesis
    by (simp add: displacement_def flat_ring7_def row_dot_def fdot_def fsum_def
        numeral_eq_Suc)
qed

lemma fdot_zeros:
  "list_all (\<lambda>y. \<exists>r. y = Fin r) ys \<Longrightarrow> fdot (replicate n (Fin 0)) ys = Fin 0"
proof (induction n arbitrary: ys)
  case 0
  show ?case by (simp add: fdot_def fsum_def)
next
  case (Suc n)
  show ?case
  proof (cases ys)
    case Nil
    then show ?thesis by (simp add: fdot_def fsum_def)
  next
    case (Cons y ys')
    then obtain r where "y = Fin r" and "list_all (\<lambda>y. \<exists>r. y = Fin r) ys'"
      using Suc.prems by auto
    then show ?thesis
      using Suc.IH [of ys'] Cons by (simp add: fdot_def fsum_def)
  qed
qed

lemma harmonic_exact_finite:
  "0 < N \<Longrightarrow> list_all (\<lambda>y. \<exists>r. y = Fin r) (harmonic exact_float_ops (lift1 f) k N)"
  by (simp add: harmonic_def list_all_iff)

lemma flat_ring7_snapped:
  "allclose_zero (qsin_of exact_float_ops (replicate 7 (Fin 0)) 7 [2..<4])
   \<and> allclose_zero (qcos_of exact_float_ops (replicate 7 (Fin 0)) 7 [2..<4])"
  by (simp add: qsin_of_def qcos_of_def fdot_zeros harmonic_exact_finite allclose_zero_def
      upt_rec)

section \<open>Claims about the pucker engine\<close>

text \<open>
  C2.  For a ring size outside \<open>5 \<le> N \<le> 20\<close> the function does not end in
  \<open>InvalidRingSizeError\<close>: the branch that handles such a size falls through to the final
  \<open>return\<close>, whose three names are unbound there, and the call ends in
  \<open>UnboundLocalError\<close>.
\<close>

theorem get_ring_pucker_coords_bad_size:
  assumes "length coordinates \<le> 4 \<or> 20 < length coordinates"
  shows "get_ring_pucker_coords ops coordinates = Inl UnboundLocalError
    \<and> get_ring_pucker_coords ops coordinates \<noteq> Inl InvalidRingSizeError"
proof -
  have "get_ring_pucker_coords ops coordinates = Inl UnboundLocalError"
    using assms by (intro pucker_out_of_range) auto
  then show ?thesis by simp
qed

text \<open>Rings of three and of twenty-one atoms, whatever the rounding.\<close>

theorem get_ring_pucker_coords_bad_size_witness:
  "(\<forall>ops. get_ring_pucker_coords ops [(0, 0, 0), (1, 0, 0), (0, 1, 0)]
       = Inl UnboundLocalError)
   \<and> (\<forall>ops. get_ring_pucker_coords ops (replicate 21 (0, 0, 0)) = Inl UnboundLocalError)"
  using get_ring_pucker_coords_bad_size [of "[(0, 0, 0), (1, 0, 0), (0, 1, 0)]"]
    get_ring_pucker_coords_bad_size [of "replicate 21 (0, 0, 0)"]
  by simp




text \<open>
  C5, as the code has it.  \<open>get_spherical_polar_set_n6\<close> does not check the length of
  its amplitude argument.  It ends in \<open>IndexError\<close> exactly when the amplitude sequence
  has fewer than two entries or the angle sequence is empty; otherwise it returns
  \<open>Q\<close> over all amplitude entries, \<open>theta_deg\<close> from the first two of them and
  \<open>phi_deg\<close> as the first angle, whatever the lengths.
\<close>

theorem get_spherical_polar_set_n6_unchecked:
  "get_spherical_polar_set_n6 ops amplitude angle_deg =
     (if length amplitude < 2 \<or> angle_deg = [] then Inl IndexError
      else Inr (get_total_puckering_amplitude ops amplitude,
                f_degrees ops (f_atan2 ops (hd amplitude) (hd (tl amplitude))),
                hd angle_deg))"
proof (cases amplitude)
  case Nil
  then show ?thesis
    by (simp add: get_spherical_polar_set_n6_def getitem_def Let_def)
next
  case (Cons q2 rest)
  then show ?thesis
    by (cases rest; cases angle_deg)
      (simp_all add: get_spherical_polar_set_n6_def getitem_def Let_def
        get_total_puckering_amplitude_def)
qed

theorem get_spherical_polar_set_n6_unchecked_witness:
  "get_spherical_polar_set_n6 exact_float_ops [Fin 3] [Fin 0] = Inl IndexError
   \<and> get_spherical_polar_set_n6 exact_float_ops [Fin 0, Fin 1, Fin 5] [Fin 7]
       = Inr (get_total_puckering_amplitude exact_float_ops [Fin 0, Fin 1, Fin 5],
              Fin 0, Fin 7)"
  using get_spherical_polar_set_n6_unchecked [of exact_float_ops "[Fin 3]" "[Fin 0]"]
    get_spherical_polar_set_n6_unchecked [of exact_float_ops "[Fin 0, Fin 1, Fin 5]" "[Fin 7]"]
  by (simp add: atan2_def)

text \<open>
  Three amplitudes are accepted and reduced; one amplitude ends in \<open>IndexError\<close>.  Neither
  ends in \<open>UnsupportedRingSizeError\<close>, whatever the rounding.
\<close>

theorem get_spherical_polar_set_n6_unchecked_counterexample:
  "length [Fin 0, Fin 1, Fin 5] \<noteq> 2
   \<and> (\<forall>ops. \<exists>r. get_spherical_polar_set_n6 ops [Fin 0, Fin 1, Fin 5] [Fin 7] = Inr r)
   \<and> get_spherical_polar_set_n6 exact_float_ops [Fin 0, Fin 1, Fin 5] [Fin 7]
       = Inr (Fin (sqrt 26), Fin 0, Fin 7)
   \<and> (\<forall>ops. get_spherical_polar_set_n6 ops [Fin 3] [Fin 0] = Inl IndexError)
   \<and> (\<forall>ops. get_spherical_polar_set_n6 ops [Fin 3] [Fin 0] \<noteq> Inl UnsupportedRingSizeError)"
  by (simp add: get_spherical_polar_set_n6_def getitem_def Let_def fsum_def fsquare_def
      atan2_def)

text \<open>
  C4, as the code has it.  For \<open>5 \<le> N \<le> 20\<close> the function returns.  For even \<open>N\<close> the
  amplitude sequence has \<open>N / 2 - 1\<close> entries, the term for \<open>k = N / 2\<close> included, and the
  degree-angle sequence one fewer.  For odd \<open>N\<close> both sequences have \<open>(N - 3) / 2\<close>
  entries, one for each \<open>k\<close> from \<open>2\<close> to \<open>(N - 1) / 2\<close>, except that both have a single
  entry when \<open>fix_zero\<close> replaces both component vectors.
\<close>

theorem get_ring_pucker_coords_lengths:
  assumes "4 < length coordinates" and "length coordinates \<le> 20"
    and "displacement ops coordinates = Inr z"
  shows "\<exists>amplitude angle_deg angle_rad.
    get_ring_pucker_coords ops coordinates = Inr (amplitude, angle_deg, angle_rad)
    \<and> (even (length coordinates) \<longrightarrow>
          length amplitude = length coordinates div 2 - 1
          \<and> length angle_deg + 1 = length amplitude)
    \<and> (odd (length coordinates) \<longrightarrow>
          length amplitude =
            (if allclose_zero (qsin_of ops z (length coordinates)
                    [2..<(length coordinates - 1) div 2 + 1])
                \<and> allclose_zero (qcos_of ops z (length coordinates)
                    [2..<(length coordinates - 1) div 2 + 1])
             then 1 else (length coordinates - 3) div 2)
          \<and> length angle_deg = length amplitude)"
proof (cases "even (length coordinates)")
  case True
  from pucker_even [OF assms(1,2) True, of ops] assms(1) True show ?thesis
    by (auto elim!: evenE)
next
  case False
  from pucker_odd [OF assms(1,2) False assms(3)] False show ?thesis
    by auto
qed

text \<open>
  The bent six-membered ring has two amplitudes and one angle; the flat seven-membered
  ring, whose components are all snapped to zero, has one amplitude instead of two.
\<close>

theorem get_ring_pucker_coords_lengths_witness:
  "(\<exists>amplitude angle_deg angle_rad.
      get_ring_pucker_coords exact_float_ops bent_ring = Inr (amplitude, angle_deg, angle_rad)
      \<and> length amplitude = 2 \<and> length angle_deg = 1)
   \<and> (\<exists>amplitude angle_deg angle_rad.
      get_ring_pucker_coords exact_float_ops flat_ring7 = Inr (amplitude, angle_deg, angle_rad)
      \<and> length amplitude = 1 \<and> length angle_deg = 1)"
proof -
  obtain z where z: "displacement exact_float_ops bent_ring = Inr z"
    using displacement_returns by blast
  have b: "length bent_ring = 6" by (simp add: bent_ring_def)
  have f: "length flat_ring7 = 7" by (simp add: flat_ring7_def)
  have m: "[2..<(7 - 1) div 2 + 1] = [2..<4::nat]" by simp
  from get_ring_pucker_coords_lengths [of bent_ring exact_float_ops z] z b
  have one: "\<exists>amplitude angle_deg angle_rad.
      get_ring_pucker_coords exact_float_ops bent_ring = Inr (amplitude, angle_deg, angle_rad)
      \<and> length amplitude = 2 \<and> length angle_deg = 1"
    by auto
  from get_ring_pucker_coords_lengths [of flat_ring7, OF _ _ flat_ring7_exact_displacement]
    flat_ring7_snapped
  have two: "\<exists>amplitude angle_deg angle_rad.
      get_ring_pucker_coords exact_float_ops flat_ring7 = Inr (amplitude, angle_deg, angle_rad)
      \<and> length amplitude = 1 \<and> length angle_deg = 1"
    unfolding f m by auto
  from one two show ?thesis by blast
qed

text \<open>
  For \<open>N = 6\<close> the amplitude sequence has two entries, not \<open>floor (6 / 2) = 3\<close>; for
  \<open>N = 5\<close> it has one entry, not \<open>floor ((5 - 1) / 2) = 2\<close>; whatever the rounding.
\<close>

theorem get_ring_pucker_coords_lengths_counterexample:
  "(\<forall>ops. \<exists>amplitude angle_deg angle_rad.
      get_ring_pucker_coords ops bent_ring = Inr (amplitude, angle_deg, angle_rad)
      \<and> length bent_ring = 6 \<and> length amplitude = 2 \<and> length amplitude \<noteq> 6 div 2)
   \<and> (\<forall>ops. \<exists>amplitude angle_deg angle_rad.
      get_ring_pucker_coords ops [(0, 0, 0), (1, 0, 0), (2, 0, 0), (3, 0, 0), (4, 0, 0)]
        = Inr (amplitude, angle_deg, angle_rad)
      \<and> length amplitude = 1 \<and> length amplitude \<noteq> (5 - 1) div 2)"
proof -
  let ?five = "[(0, 0, 0), (1, 0, 0), (2, 0, 0), (3, 0, 0), (4, 0, 0)] :: vec3 list"
  have b: "length bent_ring = 6" by (simp add: bent_ring_def)
  have one: "\<exists>amplitude angle_deg angle_rad.
      get_ring_pucker_coords ops bent_ring = Inr (amplitude, angle_deg, angle_rad)
      \<and> length bent_ring = 6 \<and> length amplitude = 2 \<and> length amplitude \<noteq> 6 div 2"
    for ops
    using pucker_even [of bent_ring ops] b by auto
  have two: "\<exists>amplitude angle_deg angle_rad.
      get_ring_pucker_coords ops ?five = Inr (amplitude, angle_deg, angle_rad)
      \<and> length amplitude = 1 \<and> length amplitude \<noteq> (5 - 1) div 2"
    for ops
  proof -
    obtain z where z: "displacement ops ?five = Inr z"
      using displacement_returns by blast
    have "4 < length ?five" "length ?five \<le> 20" "odd (length ?five)"
      by simp_all
    from pucker_odd [OF this z]
    obtain amp deg rad where "get_ring_pucker_coords ops ?five = Inr (amp, deg, rad)"
      and "length amp = 1"
      by (auto split: if_splits)
    then show ?thesis by auto
  qed
  from one two show ?thesis by blast
qed

text \<open>
  C9.  On six atoms of the \<open>x\<close> axis the cross product \<open>R1 \<times> R2\<close> is the zero vector,
  the unguarded normal is NaN, and so are the displacements, both amplitudes and the
  \<open>theta_deg\<close> of the spherical-polar reduction: the first amplitude is not a non-negative
  number and \<open>theta_deg\<close> is not in \<open>[0, 180]\<close>.  This holds for all operations that treat
  zeros and NaN as IEEE 754 arithmetic does.
\<close>

theorem line_ring_amplitudes_nan:
  assumes "ieee_special_values ops"
  shows "even (length line_ring)
    \<and> get_ring_pucker_coords ops line_ring = Inr ([NaN, NaN], [NaN], [NaN])
    \<and> get_spherical_polar_set_n6 ops [NaN, NaN] [NaN] = Inr (NaN, NaN, NaN)
    \<and> \<not> (\<exists>q. [NaN, NaN] ! 0 = Fin q \<and> 0 \<le> q)
    \<and> \<not> (\<exists>t. NaN = Fin t \<and> 0 \<le> t \<and> t \<le> 180)"
  using line_ring_pucker [OF assms] nan_polar [OF assms]
  by (simp add: line_ring_def)

theorem line_ring_amplitudes_nan_witness:
  "ieee_special_values exact_float_ops
   \<and> get_ring_pucker_coords exact_float_ops line_ring = Inr ([NaN, NaN], [NaN], [NaN])
   \<and> get_spherical_polar_set_n6 exact_float_ops [NaN, NaN] [NaN] = Inr (NaN, NaN, NaN)"
  using line_ring_amplitudes_nan [OF exact_special_values] exact_special_values
  by simp

end
